theory Spec2Isabelle
  imports Main "HOL-Library.Char_ord" "HOL-Library.List_Lexorder" "HOL-Library.Multiset"
begin

section \<open>The Intel Fortran tool of SCons (SCons/Tool/ifort.py)\<close>

text \<open>
  A shallow embedding of \<^verbatim>\<open>src/SCons/Tool/ifort.py\<close>. Python strings are \<open>string\<close>
  (ASCII characters), \<open>None\<close>-or-string values are \<open>string option\<close>, exceptions are values
  of the type \<open>error\<close> returned on the left of a sum, and everything the module reads from
  its surroundings (the platform, the registry, the file system, the collaborating SCons
  modules) is a field of the record \<open>host\<close>.
\<close>

subsection \<open>Exceptions\<close>

datatype error =
    TypeError
  | ValueError
  | OverflowError
  | AttributeError
  | KeyError string
  | OSError
  | MissingRegistryError string
  | MissingDirError string
  | NoRegistryModuleError string
  | CollaboratorError string

text \<open>Sequencing of computations that may raise.\<close>

definition bindE :: "error + 'a \<Rightarrow> ('a \<Rightarrow> error + 'b) \<Rightarrow> error + 'b" where
  "bindE m f = (case m of Inl e \<Rightarrow> Inl e | Inr x \<Rightarrow> f x)"

subsection \<open>Python values and string operations\<close>

text \<open>\<^verbatim>\<open>not x\<close> for a value that is \<open>None\<close> or a string: true for \<open>None\<close> and for \<open>""\<close>.\<close>

definition truthy :: "string option \<Rightarrow> bool" where
  "truthy x = (case x of None \<Rightarrow> False | Some s \<Rightarrow> s \<noteq> [])"

text \<open>\<^verbatim>\<open>"%s" % x\<close> and \<^verbatim>\<open>f"{x}"\<close> for such a value.\<close>

definition py_str :: "string option \<Rightarrow> string" where
  "py_str x = (case x of None \<Rightarrow> ''None'' | Some s \<Rightarrow> s)"

definition squote :: string where
  "squote = [CHR 0x27]"

definition bslash :: string where
  "bslash = [CHR 0x5C]"

text \<open>\<^verbatim>\<open>s.startswith(p)\<close>.\<close>

definition startswith :: "string \<Rightarrow> string \<Rightarrow> bool" where
  "startswith s p = (take (length p) s = p)"

text \<open>\<^verbatim>\<open>a in b\<close> for strings: \<open>a\<close> occurs in \<open>b\<close> as a contiguous substring.\<close>

fun py_in :: "string \<Rightarrow> string \<Rightarrow> bool" where
  "py_in a [] = (a = [])"
| "py_in a (c # cs) = (startswith (c # cs) a \<or> py_in a cs)"

text \<open>\<^verbatim>\<open>s.replace(".", "")\<close>.\<close>

definition remove_dots :: "string \<Rightarrow> string" where
  "remove_dots s = filter (\<lambda>c. c \<noteq> CHR ''.'') s"

text \<open>\<^verbatim>\<open>s.split(".")[0]\<close>: the part before the first dot.\<close>

definition split_dot_first :: "string \<Rightarrow> string" where
  "split_dot_first s = takeWhile (\<lambda>c. c \<noteq> CHR ''.'') s"

text \<open>\<^verbatim>\<open>s.replace(old, new)\<close> for a non-empty \<open>old\<close>: every occurrence, left to right,
  without overlaps.\<close>

function py_replace :: "string \<Rightarrow> string \<Rightarrow> string \<Rightarrow> string" where
  "py_replace old new s =
     (if s = [] \<or> old = [] then s
      else if startswith s old then new @ py_replace old new (drop (length old) s)
      else hd s # py_replace old new (tl s))"
  by pat_completeness auto
termination
  by (relation "measure (\<lambda>(old, new, s). length s)") auto

definition is_digit :: "char \<Rightarrow> bool" where
  "is_digit c = (c \<in> set ''0123456789'')"

definition digit_val :: "char \<Rightarrow> nat" where
  "digit_val c = of_char c - 48"

text \<open>The value of a string of decimal digits.\<close>

definition digits_val :: "string \<Rightarrow> nat" where
  "digits_val ds = foldl (\<lambda>n c. 10 * n + digit_val c) 0 ds"

text \<open>The characters that \<^verbatim>\<open>float()\<close> and \<^verbatim>\<open>int()\<close> skip around an ASCII literal:
  space, \<^verbatim>\<open>\t \n \v \f \r\<close>.\<close>

definition is_space :: "char \<Rightarrow> bool" where
  "is_space c = (c \<in> set [CHR 0x20, CHR 0x09, CHR 0x0A, CHR 0x0B, CHR 0x0C, CHR 0x0D])"

definition py_strip :: "string \<Rightarrow> string" where
  "py_strip s = rev (dropWhile is_space (rev (dropWhile is_space s)))"

text \<open>Underscores in a numeric literal stand between two digits only; \<open>prev\<close> is the
  character before (NUL at the start). \<open>None\<close>: the literal is refused.\<close>

fun drop_underscores :: "char \<Rightarrow> string \<Rightarrow> string option" where
  "drop_underscores prev [] = (if prev = CHR ''_'' then None else Some [])"
| "drop_underscores prev (c # cs) =
     (if c = CHR ''_'' then (if is_digit prev then drop_underscores c cs else None)
      else if prev = CHR ''_'' \<and> \<not> is_digit c then None
      else map_option ((#) c) (drop_underscores c cs))"

text \<open>Comparison with a lower-case word, ignoring the case of ASCII letters.\<close>

fun ci_equal :: "string \<Rightarrow> string \<Rightarrow> bool" where
  "ci_equal [] [] = True"
| "ci_equal (c # cs) (p # ps) =
     ((c = p \<or> (of_char c :: nat) + 32 = of_char p) \<and> ci_equal cs ps)"
| "ci_equal _ _ = False"

text \<open>\<^verbatim>\<open>str(n)\<close> for an integer.\<close>

function nat_digits :: "nat \<Rightarrow> string" where
  "nat_digits n =
     (if n < 10 then [''0123456789'' ! n]
      else nat_digits (n div 10) @ [''0123456789'' ! (n mod 10)])"
  by pat_completeness auto
termination
  by (relation "measure id") auto

definition str_int :: "int \<Rightarrow> string" where
  "str_int i = (if i < 0 then CHR ''-'' # nat_digits (nat (- i)) else nat_digits (nat i))"

subsection \<open>\<^verbatim>\<open>int(s)\<close> and \<^verbatim>\<open>float(s)\<close>\<close>

text \<open>An optional sign in front of a literal: (negative, the rest).\<close>

definition split_sign :: "string \<Rightarrow> bool \<times> string" where
  "split_sign s =
     (case s of
        [] \<Rightarrow> (False, [])
      | c # cs \<Rightarrow> if c = CHR ''-'' then (True, cs) else if c = CHR ''+'' then (False, cs)
                 else (False, s))"

text \<open>\<^verbatim>\<open>int(s)\<close> in base 10: white space around, an optional sign, digits with single
  underscores between them; \<open>ValueError\<close> otherwise.\<close>

definition py_int :: "string \<Rightarrow> error + int" where
  "py_int s =
     (case drop_underscores (CHR 0x00) s of
        None \<Rightarrow> Inl ValueError
      | Some t \<Rightarrow>
          (let (neg, ds) = split_sign (py_strip t)
           in if ds \<noteq> [] \<and> list_all is_digit ds
              then Inr (if neg then - int (digits_val ds) else int (digits_val ds))
              else Inl ValueError))"

text \<open>A Python float as far as this module needs it: the exact decimal value
  \<open>\<plusminus> m * 10 ^ e\<close> of a finite literal, an infinity, or a NaN.\<close>

datatype pyfloat = Finite bool nat int | Infinity bool | NaN

text \<open>The exponent part of a float literal: empty, or \<^verbatim>\<open>e\<close>/\<^verbatim>\<open>E\<close>, an optional sign
  and at least one digit.\<close>

definition parse_exponent :: "string \<Rightarrow> int option" where
  "parse_exponent s =
     (case s of
        [] \<Rightarrow> Some 0
      | c # cs \<Rightarrow>
          if c = CHR ''e'' \<or> c = CHR ''E'' then
            (let (neg, ds) = split_sign cs
             in if ds \<noteq> [] \<and> list_all is_digit ds
                then Some (if neg then - int (digits_val ds) else int (digits_val ds))
                else None)
          else None)"

text \<open>\<^verbatim>\<open>float(s)\<close>: white space around, an optional sign, then \<^verbatim>\<open>inf\<close>, \<^verbatim>\<open>infinity\<close>
  or \<^verbatim>\<open>nan\<close> in any case, or digits with an optional fraction (at least one digit in
  all) and an optional exponent; \<open>ValueError\<close> otherwise.\<close>

definition py_float :: "string \<Rightarrow> error + pyfloat" where
  "py_float s =
     (case drop_underscores (CHR 0x00) s of
        None \<Rightarrow> Inl ValueError
      | Some t \<Rightarrow>
          (let (neg, r) = split_sign (py_strip t)
           in if ci_equal r ''inf'' \<or> ci_equal r ''infinity'' then Inr (Infinity neg)
              else if ci_equal r ''nan'' then Inr NaN
              else
                (let ip = takeWhile is_digit r;
                     r1 = dropWhile is_digit r;
                     fp = (if startswith r1 ''.'' then takeWhile is_digit (tl r1) else []);
                     r2 = (if startswith r1 ''.'' then dropWhile is_digit (tl r1) else r1)
                 in if ip = [] \<and> fp = [] then Inl ValueError
                    else (case parse_exponent r2 of
                            None \<Rightarrow> Inl ValueError
                          | Some ex \<Rightarrow>
                              Inr (Finite neg (digits_val (ip @ fp)) (ex - int (length fp)))))))"

text \<open>Rounding of the fraction \<open>a / b\<close> to the nearest integer, ties to even.\<close>

definition round_half_even :: "nat \<Rightarrow> nat \<Rightarrow> nat" where
  "round_half_even a b =
     (let d = a div b; r = a mod b
      in if 2 * r < b then d else if b < 2 * r then d + 1 else if even d then d else d + 1)"

function ilog2 :: "nat \<Rightarrow> nat" where
  "ilog2 n = (if n < 2 then 0 else 1 + ilog2 (n div 2))"
  by pat_completeness auto
termination
  by (relation "measure id") auto

text \<open>The integer part of the binary64 number nearest to \<open>a / b\<close> (53 significant bits,
  ties to even); \<open>None\<close> when the literal rounds to an infinity. Below one half the
  nearest double is at most one half and its integer part is zero.\<close>

definition double_trunc :: "nat \<Rightarrow> nat \<Rightarrow> nat option" where
  "double_trunc a b =
     (if 2 * a < b then Some 0
      else if a < b then Some (round_half_even (a * 2 ^ 53) b div 2 ^ 53)
      else
        (let e = ilog2 (a div b)
         in if e \<le> 52 then Some (round_half_even (a * 2 ^ (52 - e)) b div 2 ^ (52 - e))
            else
              (let v = round_half_even a (b * 2 ^ (e - 52)) * 2 ^ (e - 52)
               in if 2 ^ 1024 \<le> v then None else Some v)))"

text \<open>\<^verbatim>\<open>int(x)\<close> for a float: truncation towards zero; an infinity raises
  \<open>OverflowError\<close>, a NaN \<open>ValueError\<close>.\<close>

definition int_of_float :: "pyfloat \<Rightarrow> error + int" where
  "int_of_float x =
     (case x of
        NaN \<Rightarrow> Inl ValueError
      | Infinity _ \<Rightarrow> Inl OverflowError
      | Finite neg m e \<Rightarrow>
          (case (if 0 \<le> e then double_trunc (m * 10 ^ nat e) 1
                 else double_trunc m (10 ^ nat (- e))) of
             None \<Rightarrow> Inl OverflowError
           | Some n \<Rightarrow> Inr (if neg then - int n else int n)))"

text \<open>\<^verbatim>\<open>str(int(float(version)))\<close>; \<^verbatim>\<open>float(None)\<close> raises \<open>TypeError\<close>.\<close>

definition str_int_float :: "string option \<Rightarrow> error + string" where
  "str_int_float version =
     (case version of
        None \<Rightarrow> Inl TypeError
      | Some v \<Rightarrow> bindE (py_float v) (\<lambda>x. bindE (int_of_float x) (\<lambda>i. Inr (str_int i))))"

subsection \<open>The regular expressions\<close>

text \<open>The characters of \<^verbatim>\<open>[0-9.]\<close>, and the positions where \<^verbatim>\<open>$\<close> matches: the end of
  the string, or just before a newline that ends it.\<close>

definition is_vchar :: "char \<Rightarrow> bool" where
  "is_vchar c = (is_digit c \<or> c = CHR ''.'')"

definition at_end :: "string \<Rightarrow> bool" where
  "at_end r = (r = [] \<or> r = [CHR 0x0A])"

text \<open>\<^verbatim>\<open>\.([0-9][0-9.]*)$\<close> matched at the start of \<open>r\<close>: the group. The greedy star takes
  every character of \<^verbatim>\<open>[0-9.]\<close>; giving one back leaves such a character in front of
  \<^verbatim>\<open>$\<close>, which then fails.\<close>

definition re_tail :: "string \<Rightarrow> string option" where
  "re_tail r =
     (case r of
        [] \<Rightarrow> None
      | c # t \<Rightarrow>
          if c = CHR ''.'' \<and> t \<noteq> [] \<and> is_digit (hd t) \<and> at_end (dropWhile is_vchar t)
          then Some (takeWhile is_vchar t) else None)"

text \<open>\<^verbatim>\<open>([0-9]{0,4})(?:_sp\d*)?\.([0-9][0-9.]*)$\<close> matched at the start of \<open>s\<close>: the two
  groups. What follows the first group is \<^verbatim>\<open>_\<close> or a dot, so the group is the whole run
  of digits at the start, and the match fails when that run is longer than four; in the
  same way \<^verbatim>\<open>\d*\<close> is the whole run of digits after \<^verbatim>\<open>_sp\<close>.\<close>

definition re_version_at :: "string \<Rightarrow> (string \<times> string) option" where
  "re_version_at s =
     (let g1 = takeWhile is_digit s; r = dropWhile is_digit s
      in if 4 < length g1 then None
         else if startswith r ''_sp''
         then map_option (Pair g1) (re_tail (dropWhile is_digit (drop 3 r)))
         else map_option (Pair g1) (re_tail r))"

text \<open>\<^verbatim>\<open>re.search\<close>: the match at the leftmost position that has one.\<close>

fun re_search_version :: "string \<Rightarrow> (string \<times> string) option" where
  "re_search_version [] = re_version_at []"
| "re_search_version (c # cs) =
     (case re_version_at (c # cs) of
        Some m \<Rightarrow> Some m
      | None \<Rightarrow> re_search_version cs)"

text \<open>\<^verbatim>\<open>"%s.%s" % (m.group(1), m.group(2))\<close> for the match in a directory name, if any.\<close>

definition dir_version :: "string \<Rightarrow> string option" where
  "dir_version d = map_option (\<lambda>(g1, g2). g1 @ ''.'' @ g2) (re_search_version d)"

text \<open>\<^verbatim>\<open>([0-9][0-9.]*)$\<close>, matched at the start of \<open>s\<close> and searched.\<close>

definition re_number_at :: "string \<Rightarrow> string option" where
  "re_number_at s =
     (if s \<noteq> [] \<and> is_digit (hd s) \<and> at_end (dropWhile is_vchar s)
      then Some (takeWhile is_vchar s) else None)"

fun re_search_number :: "string \<Rightarrow> string option" where
  "re_search_number [] = re_number_at []"
| "re_search_number (c # cs) =
     (case re_number_at (c # cs) of
        Some g \<Rightarrow> Some g
      | None \<Rightarrow> re_search_number cs)"

subsection \<open>The environment and the host\<close>

text \<open>The value of a construction variable: a string, a list, or a \<^verbatim>\<open>CLVar\<close>.\<close>

datatype cval = Str string | Lst "string list" | CLVar "string list"

text \<open>What the module writes to standard output. \<open>PrintVersions\<close> is \<^verbatim>\<open>print(vlist)\<close>,
  \<open>PrintUsing\<close> the message of lines 378-381 with its four arguments, \<open>System\<close> a command
  handed to \<^verbatim>\<open>os.system\<close>.\<close>

datatype out =
    Print string
  | PrintVersions "string list option"
  | PrintUsing "string option" string string string
  | System string

text \<open>The caller's Environment: its construction variables (\<^verbatim>\<open>env[key]\<close>), the
  execution environment \<^verbatim>\<open>env['ENV']\<close> with each search path as the list of its
  directories, and the output written so far.\<close>

record state =
  vars :: "string \<rightharpoonup> cval"
  ENV :: "string \<rightharpoonup> string list"
  stdout :: "out list"

text \<open>
  The host: \<^verbatim>\<open>sys.platform\<close> and \<^verbatim>\<open>os.environ\<close> as read when the module is imported;
  the registry (\<open>reg_subkeys\<close>: the subkeys of each key that can be opened, in the order
  \<^verbatim>\<open>RegEnumKey\<close> gives them; \<open>reg_values\<close>: the values of a key); \<^verbatim>\<open>glob.glob\<close>,
  \<^verbatim>\<open>os.path.exists\<close>, \<^verbatim>\<open>os.path.isdir\<close> and \<^verbatim>\<open>os.path.join\<close>; and the two functions of
  other SCons modules that \<^verbatim>\<open>generate\<close> hands the Environment to.
\<close>

record host =
  sys_platform :: string
  os_environ :: "string \<rightharpoonup> string"
  can_read_reg :: bool
  reg_subkeys :: "string \<rightharpoonup> string list"
  reg_values :: "string \<Rightarrow> string \<rightharpoonup> string"
  glob :: "string \<Rightarrow> string list"
  os_path_exists :: "string \<Rightarrow> bool"
  os_path_isdir :: "string \<Rightarrow> bool"
  os_path_join :: "string list \<Rightarrow> string"
  msvc_generate :: "state \<Rightarrow> error + state"
  add_all_to_env :: "state \<Rightarrow> error + state"

text \<open>Lines 41-49. (A Windows host without \<^verbatim>\<open>PROCESSOR_ARCHITECTURE\<close> fails to import the
  module; no function of it runs then.)\<close>

definition is_windows :: "host \<Rightarrow> bool" where
  "is_windows h = (sys_platform h = ''win32'')"

definition is_win64 :: "host \<Rightarrow> bool" where
  "is_win64 h =
     (is_windows h \<and>
      (os_environ h ''PROCESSOR_ARCHITECTURE'' = Some ''AMD64'' \<or>
       os_environ h ''PROCESSOR_ARCHITEW6432'' = Some ''AMD64''))"

definition is_linux :: "host \<Rightarrow> bool" where
  "is_linux h = startswith (sys_platform h) ''linux''"

text \<open>\<^verbatim>\<open>env[key]\<close> and \<^verbatim>\<open>env[key] = v\<close>.\<close>

definition getitem :: "state \<Rightarrow> string \<Rightarrow> error + cval" where
  "getitem s k = (case vars s k of None \<Rightarrow> Inl (KeyError k) | Some v \<Rightarrow> Inr v)"

definition setitem :: "state \<Rightarrow> string \<Rightarrow> cval \<Rightarrow> state" where
  "setitem s k v = s\<lparr>vars := (vars s)(k \<mapsto> v)\<rparr>"

definition emit :: "state \<Rightarrow> out \<Rightarrow> state" where
  "emit s x = s\<lparr>stdout := stdout s @ [x]\<rparr>"

text \<open>
  Modelled from the spec: \<^verbatim>\<open>AppendENVPath\<close> is a method of the SCons Environment class,
  which is not among the source files. Section 5 of the specification says the
  environment object is mutated in place "via ordered append operations": the new
  directory goes to the end of the named search path.
\<close>

definition AppendENVPath :: "state \<Rightarrow> string \<Rightarrow> string \<Rightarrow> state" where
  "AppendENVPath s name newpath =
     s\<lparr>ENV := (ENV s)(name \<mapsto> (case ENV s name of None \<Rightarrow> [] | Some ps \<Rightarrow> ps) @ [newpath])\<rparr>"

subsection \<open>The registry (Windows)\<close>

text \<open>\<^verbatim>\<open>SCons.Util.RegOpenKeyEx(HKEY_LOCAL_MACHINE, path)\<close>: the key, named by its path, or
  the error that both \<^verbatim>\<open>except RegError\<close> and \<^verbatim>\<open>except OSError\<close> catch.\<close>

definition RegOpenKeyEx :: "host \<Rightarrow> string \<Rightarrow> error + string" where
  "RegOpenKeyEx h path = (case reg_subkeys h path of None \<Rightarrow> Inl OSError | Some _ \<Rightarrow> Inr path)"

definition RegEnumKey :: "host \<Rightarrow> string \<Rightarrow> nat \<Rightarrow> error + string" where
  "RegEnumKey h k i =
     (case reg_subkeys h k of
        None \<Rightarrow> Inl OSError
      | Some ks \<Rightarrow> if i < length ks then Inr (ks ! i) else Inl OSError)"

text \<open>Lines 129-137.\<close>

definition get_registry_path :: "string \<Rightarrow> error + string" where
  "get_registry_path version =
     bindE (py_int (split_dot_first version)) (\<lambda>n.
       if n < 2023
       then Inr (''Software'' @ bslash @ ''Wow6432Node'' @ bslash @ ''Intel'' @ bslash @
                 ''Compilers'' @ bslash @ ''Fortran'' @ bslash @ version)
       else Inr (''Software'' @ bslash @ ''Wow6432Node'' @ bslash @ ''Intel'' @ bslash @
                 ''Compilers'' @ bslash @ ''1AFortran'' @ bslash @ version))"

definition regArch :: "(string \<times> string) list" where
  "regArch =
     [(''x86_64'', ''EM64T_NATIVE''), (''amd64'', ''EM64T_NATIVE''), (''em64t'', ''EM64T_NATIVE''),
      (''x86'', ''IA32''), (''i386'', ''IA32''), (''ia32'', ''IA32'')]"

text \<open>Lines 72-102. A \<open>version\<close> of \<open>None\<close> has no \<^verbatim>\<open>split\<close>.\<close>

definition get_intel_registry_value ::
    "host \<Rightarrow> string \<Rightarrow> string option \<Rightarrow> string option \<Rightarrow> string option \<Rightarrow> error + string" where
  "get_intel_registry_value h valueName version abi msvs =
     bindE (case version of None \<Rightarrow> Inl AttributeError | Some v \<Rightarrow> get_registry_path v) (\<lambda>path0.
     bindE (case abi of
              None \<Rightarrow> Inr path0
            | Some a \<Rightarrow> (case map_of regArch a of
                          None \<Rightarrow> Inl (KeyError a)
                        | Some r \<Rightarrow> Inr (path0 @ bslash @ r))) (\<lambda>path1.
     let path = (case msvs of None \<Rightarrow> path1 | Some m \<Rightarrow> path1 @ bslash @ m)
     in case RegOpenKeyEx h path of
          Inl _ \<Rightarrow>
            Inl (MissingRegistryError
                  (path @ '' was not found in the registry, for Intel compiler version '' @
                   py_str version @ '', abi='' @ squote @ py_str abi @ squote))
        | Inr k \<Rightarrow>
            (case reg_values h k valueName of
               None \<Rightarrow>
                 Inl (MissingRegistryError
                       (path @ bslash @ valueName @ '' was not found in the registry.''))
             | Some v \<Rightarrow> Inr v)))"

text \<open>The loop of lines 150-162: subkey \<open>i\<close>, \<open>i + 1\<close>, ... until \<^verbatim>\<open>RegEnumKey\<close> raises;
  a name that \<^verbatim>\<open>float\<close> refuses is skipped.\<close>

function enum_versions :: "host \<Rightarrow> string \<Rightarrow> nat \<Rightarrow> string list \<Rightarrow> string list" where
  "enum_versions h k i versions =
     (case RegEnumKey h k i of
        Inl _ \<Rightarrow> versions
      | Inr buildVersion \<Rightarrow>
          enum_versions h k (i + 1)
            (case py_float buildVersion of
               Inl _ \<Rightarrow> versions
             | Inr _ \<Rightarrow> versions @ [buildVersion]))"
  by pat_completeness auto
termination
  by (relation "measure (\<lambda>(h, k, i, versions).
        (case reg_subkeys h k of None \<Rightarrow> 0 | Some ks \<Rightarrow> length ks) - i)")
     (auto simp: RegEnumKey_def split: option.splits if_splits)

text \<open>Lines 140-163.\<close>

definition extract_compiler_versions_from_registry :: "host \<Rightarrow> string \<Rightarrow> string list" where
  "extract_compiler_versions_from_registry h path =
     (case RegOpenKeyEx h path of
        Inl _ \<Rightarrow> []
      | Inr k \<Rightarrow> enum_versions h k 0 [])"

subsection \<open>The catalog\<close>

text \<open>\<^verbatim>\<open>sorted(versions, reverse=True)\<close>: descending in the order of Python strings,
  which compares character codes, a proper prefix first.\<close>

definition sorted_reverse :: "string list \<Rightarrow> string list" where
  "sorted_reverse versions = rev (sort versions)"

text \<open>The loops of lines 182-187 and 188-192 over the directories of one glob pattern.\<close>

fun collect_versions :: "string list \<Rightarrow> string list \<Rightarrow> string list" where
  "collect_versions versions [] = versions"
| "collect_versions versions (d # ds) =
     collect_versions
       (case dir_version d of None \<Rightarrow> versions | Some v \<Rightarrow> versions @ [v]) ds"

text \<open>Lines 166-193. On a host that is neither Windows nor Linux the function ends
  without a \<^verbatim>\<open>return\<close>: the result is \<open>None\<close>.\<close>

definition get_all_compiler_versions :: "host \<Rightarrow> string list option" where
  "get_all_compiler_versions h =
     (if is_windows h then
        Some (sorted_reverse
          (extract_compiler_versions_from_registry h
             (''Software'' @ bslash @ ''WoW6432Node'' @ bslash @ ''Intel'' @ bslash @
              ''Compilers'' @ bslash @ ''Fortran'') @
           extract_compiler_versions_from_registry h
             (''Software'' @ bslash @ ''WoW6432Node'' @ bslash @ ''Intel'' @ bslash @
              ''Compilers'' @ bslash @ ''1AFortran'')))
      else if is_linux h then
        Some (sorted_reverse
          (collect_versions
             (collect_versions [] (glob h ''/opt/intel*/composer_xe_*''))
             (glob h ''/opt/intel*/compilers_and_libraries_*'')))
      else None)"

subsection \<open>The top-level directory\<close>

text \<open>Whether a directory holds \<^verbatim>\<open>icc\<close> for one of the two architectures, under the
  given path from the directory to \<^verbatim>\<open>bin\<close> (lines 221-222, 234-235 and 253-256).\<close>

definition has_icc :: "host \<Rightarrow> string \<Rightarrow> string list \<Rightarrow> bool" where
  "has_icc h d pre =
     (os_path_exists h (os_path_join h ([d] @ pre @ [''bin'', ''ia32'', ''icc''])) \<or>
      os_path_exists h (os_path_join h ([d] @ pre @ [''bin'', ''intel64'', ''icc''])))"

text \<open>The first loop of \<^verbatim>\<open>find_in_2011style_dir\<close> (lines 214-225).\<close>

fun search_composer_xe :: "host \<Rightarrow> string option \<Rightarrow> string list \<Rightarrow> string option" where
  "search_composer_xe h version [] = None"
| "search_composer_xe h version (d # ds) =
     (case dir_version d of
        None \<Rightarrow> search_composer_xe h version ds
      | Some cur_ver \<Rightarrow>
          if Some cur_ver = version \<and> has_icc h d [] then Some d
          else search_composer_xe h version ds)"

text \<open>Its second loop (lines 227-239).\<close>

fun search_composerxe :: "host \<Rightarrow> string option \<Rightarrow> string list \<Rightarrow> string option" where
  "search_composerxe h version [] = None"
| "search_composerxe h version (d # ds) =
     (case re_search_number d of
        None \<Rightarrow> search_composerxe h version ds
      | Some g \<Rightarrow>
          if Some g = version \<and> has_icc h d [] then Some d
          else search_composerxe h version ds)"

text \<open>Lines 210-240.\<close>

definition find_in_2011style_dir :: "host \<Rightarrow> string option \<Rightarrow> string option" where
  "find_in_2011style_dir h version =
     (let top = search_composer_xe h version (glob h ''/opt/intel*/composer_xe_*'')
      in if \<not> truthy top
         then search_composerxe h version (glob h ''/opt/intel*/composerxe-*'')
         else top)"

text \<open>The loop of \<^verbatim>\<open>find_in_2017style_dir\<close> (lines 247-259).\<close>

fun search_compilers_and_libraries ::
    "host \<Rightarrow> string option \<Rightarrow> string \<Rightarrow> string list \<Rightarrow> string option" where
  "search_compilers_and_libraries h version version_stripped [] = None"
| "search_compilers_and_libraries h version version_stripped (d # ds) =
     (case dir_version d of
        None \<Rightarrow> search_compilers_and_libraries h version version_stripped ds
      | Some cur_ver \<Rightarrow>
          if (Some cur_ver = version \<or> py_in version_stripped cur_ver) \<and> has_icc h d [''linux'']
          then Some (os_path_join h [d, ''linux''])
          else search_compilers_and_libraries h version version_stripped ds)"

text \<open>Lines 242-260.\<close>

definition find_in_2017style_dir :: "host \<Rightarrow> string option \<Rightarrow> error + string option" where
  "find_in_2017style_dir h version =
     bindE (str_int_float version) (\<lambda>version_stripped.
       Inr (search_compilers_and_libraries h version version_stripped
              (glob h ''/opt/intel*/compilers_and_libraries_*'')))"

text \<open>Lines 196-268. \<open>abi\<close> is the string \<^verbatim>\<open>generate\<close> passes. On a host that is neither
  Windows nor Linux \<open>top\<close> stays \<open>None\<close> and is returned.\<close>

definition get_intel_compiler_top :: "host \<Rightarrow> string option \<Rightarrow> string \<Rightarrow> error + string option" where
  "get_intel_compiler_top h version abi =
     (if is_windows h then
        if \<not> can_read_reg h
        then Inl (NoRegistryModuleError ''No Windows registry module was found'')
        else bindE (get_intel_registry_value h ''ProductDir'' version None None) (\<lambda>v. Inr (Some v))
      else if is_linux h then
        bindE (let t = find_in_2011style_dir h version
               in if truthy t then Inr t else find_in_2017style_dir h version) (\<lambda>top.
          if \<not> truthy top
          then Inl (MissingDirError
                     (''Can'' @ squote @ ''t find version '' @ py_str version @
                      '' Intel compiler in '' @ py_str top @
                      '' (abi='' @ squote @ abi @ squote @ '')''))
          else Inr top)
      else Inr None)"

subsection \<open>\<^verbatim>\<open>generate\<close>\<close>

text \<open>Lines 290-298: \<^verbatim>\<open>env[key] = [suffix]\<close> when the key is not in the Environment,
  \<^verbatim>\<open>env[key].append(suffix)\<close> otherwise; a string has no \<^verbatim>\<open>append\<close>.\<close>

definition append_suffix :: "state \<Rightarrow> string \<Rightarrow> string \<Rightarrow> error + state" where
  "append_suffix s key suffix =
     (case vars s key of
        None \<Rightarrow> Inr (setitem s key (Lst [suffix]))
      | Some (Lst xs) \<Rightarrow> Inr (setitem s key (Lst (xs @ [suffix])))
      | Some (CLVar xs) \<Rightarrow> Inr (setitem s key (CLVar (xs @ [suffix])))
      | Some (Str _) \<Rightarrow> Inl AttributeError)"

text \<open>Lines 281-298. The two \<^verbatim>\<open>add_scanner\<close> calls change the scanner table of the
  process, not the Environment, and are left out.\<close>

definition register_suffixes :: "host \<Rightarrow> state \<Rightarrow> error + state" where
  "register_suffixes h s =
     bindE (if is_windows h then msvc_generate h s else Inr s) (\<lambda>s1.
     bindE (append_suffix s1 ''FORTRANFILESUFFIXES'' ''.i'') (\<lambda>s2.
       append_suffix s2 ''F90FILESUFFIXES'' ''.i90''))"

text \<open>The loop of lines 315-318: the first \<open>v\<close> that contains \<open>version_stripped\<close>, or
  \<open>version\<close> as it was.\<close>

fun first_match :: "string \<Rightarrow> string list \<Rightarrow> string \<Rightarrow> string" where
  "first_match version_stripped [] version = version"
| "first_match version_stripped (v # vlist) version =
     (if py_in version_stripped v then v else first_match version_stripped vlist version)"

text \<open>Lines 310-318.\<close>

definition select_version :: "string list \<Rightarrow> string option \<Rightarrow> string option" where
  "select_version vlist version =
     (if length vlist \<noteq> 0 then
        (case version of
           None \<Rightarrow> Some (vlist ! 0)
         | Some v \<Rightarrow>
             if v = [] then Some (vlist ! 0)
             else Some (first_match (remove_dots v) vlist v))
      else version)"

text \<open>Lines 322-326.\<close>

definition default_abi :: "host \<Rightarrow> string option \<Rightarrow> string" where
  "default_abi h abi =
     (case abi of
        None \<Rightarrow> if is_win64 h \<or> is_linux h then ''x86_64'' else ''ia32''
      | Some a \<Rightarrow> if a = [] then (if is_win64 h \<or> is_linux h then ''x86_64'' else ''ia32'') else a)"

text \<open>Lines 328-331.\<close>

definition resolve_topdir ::
    "host \<Rightarrow> string option \<Rightarrow> string \<Rightarrow> string option \<Rightarrow> error + string option" where
  "resolve_topdir h version abi topdir =
     (case topdir of
        None \<Rightarrow> get_intel_compiler_top h version abi
      | Some t \<Rightarrow>
          if t = [] then get_intel_compiler_top h version abi
          else if \<not> os_path_exists h t then get_intel_compiler_top h version abi
          else Inr (Some t))"

definition archdir_table :: "(string \<times> string) list" where
  "archdir_table =
     [(''x86_64'', ''intel64''), (''amd64'', ''intel64''), (''em64t'', ''intel64''),
      (''x86'', ''ia32''), (''i386'', ''ia32''), (''ia32'', ''ia32'')]"

text \<open>The directories of an installation, as lines 347-362 compute them: \<open>binDir\<close>,
  \<open>libDir\<close>, \<open>includeDir\<close> are the locals \<^verbatim>\<open>bindir\<close>, \<^verbatim>\<open>libdir\<close>, \<^verbatim>\<open>incdir\<close>, and
  \<open>mklBinDir\<close>, \<open>mklLibDir\<close>, \<open>mklIncludeDir\<close> the locals \<^verbatim>\<open>binmkl\<close>, \<^verbatim>\<open>libmkl\<close>,
  \<^verbatim>\<open>incmkl\<close>.\<close>

record ResolvedLayout =
  topDir :: string
  archDir :: string
  binDir :: string
  libDir :: string
  includeDir :: string
  mklBinDir :: "string option"
  mklLibDir :: "string option"
  mklIncludeDir :: "string option"

definition resolve_layout :: "host \<Rightarrow> string \<Rightarrow> string \<Rightarrow> ResolvedLayout" where
  "resolve_layout h topdir archdir =
     (let modern = os_path_exists h (os_path_join h [topdir, ''bin'', archdir]);
          mkl = os_path_exists h (os_path_join h [topdir, ''mkl'', ''bin'', archdir])
      in \<lparr> topDir = topdir,
           archDir = archdir,
           binDir = (if modern then os_path_join h [''bin'', archdir] else ''bin''),
           libDir = (if modern then os_path_join h [''compiler'', ''lib'', archdir] else ''lib''),
           includeDir = (if modern then os_path_join h [''compiler'', ''include''] else ''include''),
           mklBinDir = (if mkl then Some (os_path_join h [''mkl'', ''bin'', archdir]) else None),
           mklLibDir = (if mkl then Some (os_path_join h [''mkl'', ''lib'', archdir]) else None),
           mklIncludeDir = (if mkl then Some (os_path_join h [''mkl'', ''include'']) else None) \<rparr>)"

text \<open>Lines 365-373.\<close>

definition redist_path :: "host \<Rightarrow> string \<Rightarrow> string" where
  "redist_path h topdir =
     (if is_windows h then
        (let p = os_path_join h [topdir, ''redist'', ''intel64'']
         in os_path_join h [(if \<not> os_path_isdir h p then p @ ''_win'' else p), ''compiler''])
      else
        (let p = os_path_join h [topdir, ''lib'', ''intel64'']
         in if \<not> os_path_isdir h p then p @ ''_lin'' else p))"

text \<open>\<^verbatim>\<open>os.path.join(topdir, x)\<close> where \<open>x\<close> may be \<open>None\<close>.\<close>

definition join_top :: "host \<Rightarrow> string \<Rightarrow> string option \<Rightarrow> error + string" where
  "join_top h topdir x =
     (case x of None \<Rightarrow> Inl TypeError | Some d \<Rightarrow> Inr (os_path_join h [topdir, d]))"

text \<open>The three calls of lines 391-393, made when \<^verbatim>\<open>binmkl\<close> is set: the variable and the
  directory of each, in order.\<close>

definition mkl_calls :: "host \<Rightarrow> ResolvedLayout \<Rightarrow> error + (string \<times> string) list" where
  "mkl_calls h L =
     (if truthy (mklBinDir L) then
        bindE (join_top h (topDir L) (mklBinDir L)) (\<lambda>b.
        bindE (join_top h (topDir L) (mklIncludeDir L)) (\<lambda>i.
        bindE (join_top h (topDir L) (mklLibDir L)) (\<lambda>l.
          Inr [(''PATH'', b), (''INCLUDE'', i), (''LIB'', l)])))
      else Inr [])"

text \<open>The calls of lines 395-402, which depend on the platform.\<close>

definition platform_calls :: "host \<Rightarrow> ResolvedLayout \<Rightarrow> error + (string \<times> string) list" where
  "platform_calls h L =
     (if is_windows h then
        Inr [(''PATH'', os_path_join h [topDir L, ''redist'', archDir L, ''compiler''])]
      else if is_linux h then
        (if truthy (mklBinDir L) then
           bindE (join_top h (topDir L) (mklLibDir L)) (\<lambda>l.
             Inr [(''LD_LIBRARY_PATH'', os_path_join h [topDir L, libDir L]),
                  (''LD_LIBRARY_PATH'', l)])
         else Inr [(''LD_LIBRARY_PATH'', os_path_join h [topDir L, libDir L])])
      else Inr [])"

text \<open>The calls of the loop of lines 387-389 over the dictionary \<^verbatim>\<open>paths\<close>, whose keys
  come in the order they were written.\<close>

definition base_calls :: "host \<Rightarrow> ResolvedLayout \<Rightarrow> (string \<times> string) list" where
  "base_calls h L =
     map (\<lambda>(p, d). (p, os_path_join h [topDir L, d]))
       [(''INCLUDE'', includeDir L), (''LIB'', libDir L), (''PATH'', binDir L)]"

text \<open>All \<^verbatim>\<open>AppendENVPath\<close> calls of lines 387-402, in the order they are made.\<close>

definition path_calls :: "host \<Rightarrow> ResolvedLayout \<Rightarrow> error + (string \<times> string) list" where
  "path_calls h L =
     bindE (mkl_calls h L) (\<lambda>m.
     bindE (platform_calls h L) (\<lambda>p.
       Inr (base_calls h L @ m @ p)))"

definition apply_calls :: "state \<Rightarrow> (string \<times> string) list \<Rightarrow> state" where
  "apply_calls s calls = foldl (\<lambda>s' (name, newpath). AppendENVPath s' name newpath) s calls"

text \<open>Lines 377-384.\<close>

definition report_compiler ::
    "host \<Rightarrow> state \<Rightarrow> string option \<Rightarrow> string \<Rightarrow> ResolvedLayout \<Rightarrow> state" where
  "report_compiler h s version abi L =
     (let s1 = emit s (PrintUsing version abi (topDir L) (binDir L))
      in if is_linux h
         then emit s1 (System (topDir L @ ''/'' @ binDir L @ ''/ifort --version''))
         else s1)"

text \<open>Lines 336-402, entered when \<open>topdir\<close> is a non-empty string. Each call is made as
  soon as its arguments are computed, so a \<open>None\<close> handed to \<^verbatim>\<open>os.path.join\<close> would stop
  the function after the calls before it; \<open>resolve_layout\<close> sets the three math-library
  directories together, so that does not happen and the calls are applied at once.\<close>

definition configure_paths ::
    "host \<Rightarrow> state \<Rightarrow> string option \<Rightarrow> string \<Rightarrow> string \<Rightarrow> bool \<Rightarrow> error + state" where
  "configure_paths h s version abi topdir verbose =
     (case map_of archdir_table abi of
        None \<Rightarrow> Inl (KeyError abi)
      | Some archdir \<Rightarrow>
          (let L = resolve_layout h topdir archdir;
               s1 = setitem s ''INTEL_FORTRAN_REDIST_DIR'' (Str (redist_path h topdir));
               s2 = (if verbose then report_compiler h s1 version abi L else s1);
               s3 = setitem s2 ''INTEL_FORTRAN_COMPILER_TOP'' (Str topdir)
           in bindE (path_calls h L) (\<lambda>calls. Inr (apply_calls s3 calls))))"

definition dialects :: "string list" where
  "dialects = [''F77'', ''F90'', ''FORTRAN'', ''F95'']"

text \<open>The loop of lines 408-412.\<close>

fun dialect_loop :: "state \<Rightarrow> string list \<Rightarrow> error + state" where
  "dialect_loop s [] = Inr s"
| "dialect_loop s (dialect # ds) =
     (let s1 = setitem s dialect (Str ''ifort'');
          s2 = setitem s1 (''SH'' @ dialect) (Str (''$'' @ dialect))
      in bindE (getitem s2 ''PLATFORM'') (\<lambda>p.
           dialect_loop
             (if p = Str ''posix''
              then setitem s2 (''SH'' @ dialect @ ''FLAGS'')
                     (CLVar [''$'' @ dialect @ ''FLAGS'', ''-fPIC''])
              else s2) ds))"

text \<open>The loops of lines 418-425, over the variables in the order they are visited.\<close>

fun object_loop :: "state \<Rightarrow> string list \<Rightarrow> error + state" where
  "object_loop s [] = Inr s"
| "object_loop s (var # vs) =
     bindE (getitem s var) (\<lambda>v.
       case v of
         Str x \<Rightarrow> object_loop (setitem s var (Str (py_replace ''-o $TARGET'' ''-object:$TARGET'' x))) vs
       | Lst _ \<Rightarrow> Inl AttributeError
       | CLVar _ \<Rightarrow> Inl AttributeError)"

text \<open>Lines 404-430.\<close>

definition configure_dialects :: "host \<Rightarrow> state \<Rightarrow> error + state" where
  "configure_dialects h s =
     bindE (add_all_to_env h s) (\<lambda>s1.
     bindE (dialect_loop s1 dialects) (\<lambda>s2.
     bindE (getitem s2 ''PLATFORM'') (\<lambda>p.
     bindE (if p = Str ''win32''
            then bindE (object_loop s2
                          (concat (map (\<lambda>d. [d @ ''COM'', d @ ''PPCOM'',
                                              ''SH'' @ d @ ''COM'', ''SH'' @ d @ ''PPCOM'']) dialects)))
                   (\<lambda>s3. Inr (setitem s3 ''FORTRANMODDIRPREFIX'' (Str ''/module:'')))
            else Inr (setitem s2 ''FORTRANMODDIRPREFIX'' (Str ''-module ''))) (\<lambda>s4.
       Inr (setitem (setitem s4 ''FORTRANMODDIR'' (Str ''${TARGET.dir}''))
              ''F90PATH'' (Str ''${TARGET.dir}''))))))"

text \<open>Lines 304-430, entered with the catalog \<open>vlist\<close> when \<^verbatim>\<open>generate\<close> has not returned
  at line 303. \<^verbatim>\<open>len(None)\<close> and \<^verbatim>\<open>"..." + None\<close> raise \<open>TypeError\<close>.\<close>

definition configure ::
    "host \<Rightarrow> state \<Rightarrow> string list option \<Rightarrow> string option \<Rightarrow> string option \<Rightarrow>
     string option \<Rightarrow> bool \<Rightarrow> error + state" where
  "configure h s vlist version abi topdir verbose =
     (let s1 = (if verbose
                then emit (emit s (Print ''Found installed Intel Fortran versions:''))
                       (PrintVersions vlist)
                else s)
      in case vlist of
           None \<Rightarrow> Inl TypeError
         | Some vl \<Rightarrow>
             (let version1 = select_version vl version
              in bindE (if verbose
                        then (case version1 of
                                None \<Rightarrow> Inl TypeError
                              | Some v \<Rightarrow>
                                  Inr (emit s1 (Print (''Selected Intel Fortran compiler version: '' @ v))))
                        else Inr s1) (\<lambda>s2.
                 let abi1 = default_abi h abi
                 in bindE (resolve_topdir h version1 abi1 topdir) (\<lambda>topdir1.
                    bindE (if verbose
                           then (case topdir1 of
                                   None \<Rightarrow> Inl TypeError
                                 | Some t \<Rightarrow>
                                     Inr (emit s2 (Print (''Found Intel Fortran compiler at: '' @ t))))
                           else Inr s2) (\<lambda>s3.
                    bindE (case topdir1 of
                             None \<Rightarrow> Inr s3
                           | Some t \<Rightarrow>
                               if t = [] then Inr s3
                               else configure_paths h s3 version1 abi1 t verbose) (\<lambda>s4.
                      configure_dialects h s4))))))"

text \<open>Lines 271-430: the Environment \<open>s\<close> after the call, or the exception raised.\<close>

definition generate ::
    "host \<Rightarrow> state \<Rightarrow> string option \<Rightarrow> string option \<Rightarrow> string option \<Rightarrow> bool \<Rightarrow>
     error + state" where
  "generate h s version abi topdir verbose =
     bindE (register_suffixes h s) (\<lambda>s1.
       let vlist = get_all_compiler_versions h
       in if \<not> truthy topdir \<and> vlist = None then Inl TypeError
          else if \<not> truthy topdir \<and> vlist = Some []
          then Inr (emit s1
                 (Print ''Intel Fortran compiler not configured. Could not find an installation.''))
          else configure h s1 vlist version abi topdir verbose)"

subsection \<open>Notions used to state the properties\<close>

text \<open>The directories of a search path of the execution environment; a path that is
  not set has none.\<close>

definition env_paths :: "state \<Rightarrow> string \<Rightarrow> string list" where
  "env_paths s name = (case ENV s name of None \<Rightarrow> [] | Some ps \<Rightarrow> ps)"

text \<open>A search path of the Environment a call returned; \<open>None\<close> when it raised or left
  the path unset.\<close>

definition result_path :: "error + state \<Rightarrow> string \<Rightarrow> string list option" where
  "result_path r name = (case r of Inl _ \<Rightarrow> None | Inr s \<Rightarrow> ENV s name)"

definition result_var :: "error + state \<Rightarrow> string \<Rightarrow> cval option" where
  "result_var r key = (case r of Inl _ \<Rightarrow> None | Inr s \<Rightarrow> vars s key)"

text \<open>A construction variable that \<^verbatim>\<open>append\<close> works on: unset, a list or a \<^verbatim>\<open>CLVar\<close>.\<close>

definition appendable :: "state \<Rightarrow> string \<Rightarrow> bool" where
  "appendable s key = (case vars s key of Some (Str _) \<Rightarrow> False | _ \<Rightarrow> True)"

text \<open>The selection as the specification words it: the request and the catalog entries
  are both normalized, and the first entry whose normalized form contains the normalized
  request is returned.\<close>

definition spec_select :: "string list \<Rightarrow> string \<Rightarrow> string option" where
  "spec_select catalog requested =
     find (\<lambda>v. py_in (remove_dots requested) (remove_dots v)) catalog"

text \<open>That a version was found by the directory search on Linux: some directory of one
  of the three glob patterns holds \<^verbatim>\<open>icc\<close> for one of the two architectures.\<close>

definition found_by_search :: "host \<Rightarrow> string \<Rightarrow> bool" where
  "found_by_search h found =
     ((\<exists>d \<in> set (glob h ''/opt/intel*/composer_xe_*'') \<union> set (glob h ''/opt/intel*/composerxe-*'').
         found = d \<and> has_icc h d []) \<or>
      (\<exists>d \<in> set (glob h ''/opt/intel*/compilers_and_libraries_*'').
         found = os_path_join h [d, ''linux''] \<and> has_icc h d [''linux'']))"

subsection \<open>Example hosts\<close>

text \<open>\<^verbatim>\<open>posixpath.join\<close>.\<close>

definition posix_join2 :: "string \<Rightarrow> string \<Rightarrow> string" where
  "posix_join2 a b =
     (if startswith b ''/'' then b
      else if a = [] \<or> last a = CHR ''/'' then a @ b
      else a @ ''/'' @ b)"

definition posix_join :: "string list \<Rightarrow> string" where
  "posix_join ps = (case ps of [] \<Rightarrow> [] | a # bs \<Rightarrow> foldl posix_join2 a bs)"

text \<open>A Linux host with the given directories and files, and the given results of
  \<^verbatim>\<open>glob.glob\<close>; the collaborating modules leave the Environment as it is.\<close>

definition linux_host :: "string list \<Rightarrow> (string \<times> string list) list \<Rightarrow> host" where
  "linux_host files globs =
     \<lparr> sys_platform = ''linux'',
       os_environ = Map.empty,
       can_read_reg = False,
       reg_subkeys = Map.empty,
       reg_values = (\<lambda>k. Map.empty),
       glob = (\<lambda>pat. case map_of globs pat of None \<Rightarrow> [] | Some ds \<Rightarrow> ds),
       os_path_exists = (\<lambda>p. p \<in> set files),
       os_path_isdir = (\<lambda>p. p \<in> set files),
       os_path_join = posix_join,
       msvc_generate = Inr,
       add_all_to_env = Inr \<rparr>"

text \<open>A host whose platform is neither Windows nor Linux.\<close>

definition darwin_host :: host where
  "darwin_host = (linux_host [] []) \<lparr> sys_platform := ''darwin'' \<rparr>"

text \<open>An Environment of a POSIX platform with one directory on \<^verbatim>\<open>PATH\<close>.\<close>

definition posix_env :: state where
  "posix_env =
     \<lparr> vars = [''PLATFORM'' \<mapsto> Str ''posix''],
       ENV = [''PATH'' \<mapsto> [''/usr/bin'']],
       stdout = [] \<rparr>"

definition empty_env :: state where
  "empty_env = \<lparr> vars = Map.empty, ENV = Map.empty, stdout = [] \<rparr>"

text \<open>A Linux host with one directory of the \<^verbatim>\<open>composer_xe\<close> era, without a compiler
  binary in it.\<close>

definition host_2011 :: host where
  "host_2011 =
     linux_host []
       [(''/opt/intel*/composer_xe_*'', [''/opt/intel/composer_xe_2011_sp1.11.344''])]"

text \<open>A Linux host with one installation of the \<^verbatim>\<open>compilers_and_libraries\<close> era, the
  compiler binary in place.\<close>

definition host_2017 :: host where
  "host_2017 =
     linux_host [''/opt/intel/compilers_and_libraries_2017.4.196/linux/bin/intel64/icc'']
       [(''/opt/intel*/compilers_and_libraries_*'',
         [''/opt/intel/compilers_and_libraries_2017.4.196''])]"

text \<open>A Linux host with an installation of the modern layout under \<^verbatim>\<open>/opt/intel\<close>, without
  the math library and with it.\<close>

definition host_modern :: host where
  "host_modern = linux_host [''/opt/intel'', ''/opt/intel/bin/intel64''] []"

definition host_mkl :: host where
  "host_mkl =
     linux_host [''/opt/intel'', ''/opt/intel/bin/intel64'', ''/opt/intel/mkl/bin/intel64''] []"

subsection \<open>Basic facts\<close>

lemma bindE_Inr [simp]: "bindE (Inr x) f = f x"
  by (simp add: bindE_def)

lemma bindE_Inl [simp]: "bindE (Inl e) f = Inl e"
  by (simp add: bindE_def)

lemma bindE_eq_Inr: "bindE m f = Inr y \<longleftrightarrow> (\<exists>x. m = Inr x \<and> f x = Inr y)"
  by (cases m) simp_all

lemma linux_not_windows: "is_linux h \<Longrightarrow> \<not> is_windows h"
  by (auto simp: is_linux_def is_windows_def startswith_def)

lemma linux_host_simps:
  "sys_platform (linux_host files globs) = ''linux''"
  "glob (linux_host files globs) = (\<lambda>pat. case map_of globs pat of None \<Rightarrow> [] | Some ds \<Rightarrow> ds)"
  "os_path_exists (linux_host files globs) = (\<lambda>p. p \<in> set files)"
  "os_path_isdir (linux_host files globs) = (\<lambda>p. p \<in> set files)"
  "os_path_join (linux_host files globs) = posix_join"
  "msvc_generate (linux_host files globs) = Inr"
  "add_all_to_env (linux_host files globs) = Inr"
  by (simp_all add: linux_host_def)

lemma linux_host_platform:
  "is_linux (linux_host files globs)" "\<not> is_windows (linux_host files globs)"
  by (simp_all add: is_linux_def is_windows_def linux_host_simps startswith_def)

lemma catalog_empty_linux: "get_all_compiler_versions (linux_host files []) = Some []"
  by (simp add: get_all_compiler_versions_def linux_host_platform linux_host_simps
      sorted_reverse_def)

lemma register_suffixes_empty_env:
  "register_suffixes (linux_host files globs) empty_env =
     Inr \<lparr> vars = [''FORTRANFILESUFFIXES'' \<mapsto> Lst [''.i''], ''F90FILESUFFIXES'' \<mapsto> Lst [''.i90'']],
           ENV = Map.empty, stdout = [] \<rparr>"
  by (simp add: register_suffixes_def linux_host_platform append_suffix_def setitem_def
      empty_env_def)

section \<open>Selection of the version\<close>

lemma first_match_find:
  "first_match t vlist v = (case find (py_in t) vlist of Some e \<Rightarrow> e | None \<Rightarrow> v)"
  by (induction vlist) simp_all

text \<open>
  C1, as the code has it. For a non-empty catalog and a non-empty request, the dots are
  removed from the request only; the catalog entries are compared as they are. The
  selected version is the first entry that contains the stripped request as a substring,
  and the request itself, unchanged, when no entry does. Two requests with the same
  stripped form select the same entry whenever some entry contains that form.
\<close>

theorem select_version_requested:
  assumes "vlist \<noteq> []" and "v \<noteq> []"
  shows "select_version vlist (Some v) =
           Some (case find (py_in (remove_dots v)) vlist of Some e \<Rightarrow> e | None \<Rightarrow> v) \<and>
         (\<forall>w. w \<noteq> [] \<and> remove_dots w = remove_dots v \<and>
               find (py_in (remove_dots v)) vlist \<noteq> None
            \<longrightarrow> select_version vlist (Some w) = select_version vlist (Some v))"
  using assms by (auto simp: select_version_def first_match_find split: option.splits)

theorem select_version_requested_witness:
  "[''2021.3'', ''19.1'', ''19.0''] \<noteq> [] \<and> ''19'' \<noteq> [] \<and>
   select_version [''2021.3'', ''19.1'', ''19.0''] (Some ''19'') = Some ''19.1'' \<and>
   select_version [''2021.3'', ''19.1'', ''19.0''] (Some ''1.9'') = Some ''19.1''"
  using select_version_requested [of "[''2021.3'', ''19.1'', ''19.0'']" "''19''"]
  by (simp add: remove_dots_def startswith_def)

text \<open>
  C1 as stated fails on the catalog of the specification's own example. The request
  \<open>190\<close> is contained in the normalized form of \<open>19.0\<close>, but in no entry as the catalog
  holds it: the code passes \<open>190\<close> through where the claim selects \<open>19.0\<close>, and the
  requests \<open>19.0\<close> and \<open>190\<close> end in different versions.
\<close>

theorem select_version_normalized_counterexample:
  "spec_select [''2021.3'', ''19.1'', ''19.0''] ''190'' = Some ''19.0'' \<and>
   select_version [''2021.3'', ''19.1'', ''19.0''] (Some ''190'') = Some ''190'' \<and>
   select_version [''2021.3'', ''19.1'', ''19.0''] (Some ''19.0'') = Some ''19.0'' \<and>
   select_version [''2021.3'', ''19.1'', ''19.0''] (Some ''19.0'') \<noteq>
     select_version [''2021.3'', ''19.1'', ''19.0''] (Some ''190'')"
  by (simp add: spec_select_def select_version_def remove_dots_def startswith_def)

text \<open>
  C6. When no version is requested (\<open>None\<close>, or the empty string, which \<^verbatim>\<open>not version\<close>
  treats alike), the selected version is the first element of a non-empty catalog. When
  the catalog is empty and no top directory is given, no version is selected: \<^verbatim>\<open>generate\<close>
  prints that the compiler is not configured and returns at line 303, before the
  selection and everything after it.
\<close>

theorem select_version_unrequested:
  "(vlist \<noteq> [] \<longrightarrow>
      select_version vlist None = Some (hd vlist) \<and>
      select_version vlist (Some []) = Some (hd vlist)) \<and>
   (get_all_compiler_versions h = Some [] \<and> \<not> truthy topdir \<and>
    register_suffixes h s = Inr s1 \<longrightarrow>
      generate h s None abi topdir verbose =
        Inr (emit s1
          (Print ''Intel Fortran compiler not configured. Could not find an installation.'')))"
  by (auto simp: select_version_def generate_def hd_conv_nth)

theorem select_version_unrequested_witness:
  "select_version [''2021.3'', ''19.0''] None = Some ''2021.3'' \<and>
   generate (linux_host [] []) empty_env None None None False =
     Inr \<lparr> vars = [''FORTRANFILESUFFIXES'' \<mapsto> Lst [''.i''], ''F90FILESUFFIXES'' \<mapsto> Lst [''.i90'']],
           ENV = Map.empty,
           stdout = [Print ''Intel Fortran compiler not configured. Could not find an installation.''] \<rparr>"
  using select_version_unrequested [of "[''2021.3'', ''19.0'']" "linux_host [] []" None empty_env
      "\<lparr> vars = [''FORTRANFILESUFFIXES'' \<mapsto> Lst [''.i''], ''F90FILESUFFIXES'' \<mapsto> Lst [''.i90'']],
           ENV = Map.empty, stdout = [] \<rparr>" None False]
  by (simp add: catalog_empty_linux register_suffixes_empty_env truthy_def emit_def)

section \<open>Exceptions that escape\<close>

lemma append_suffix_appendable:
  "appendable s key \<Longrightarrow> \<exists>s'. append_suffix s key x = Inr s'"
  by (auto simp: appendable_def append_suffix_def split: option.splits cval.splits)

lemma append_suffix_other:
  "append_suffix s key x = Inr s' \<Longrightarrow> k \<noteq> key \<Longrightarrow> vars s' k = vars s k"
  by (auto simp: append_suffix_def setitem_def split: option.splits cval.splits)

lemma append_suffix_keeps_appendable:
  "append_suffix s key x = Inr s' \<Longrightarrow> k \<noteq> key \<Longrightarrow> appendable s' k = appendable s k"
  by (simp add: appendable_def append_suffix_other)

lemma configure_without_catalog: "configure h s None version abi topdir verbose = Inl TypeError"
  by (simp add: configure_def Let_def)

text \<open>
  C9. On a host that is neither Windows nor Linux the catalog is \<open>None\<close>, not a list.
  No call of \<^verbatim>\<open>generate\<close> returns there, and every call that gets as far as the catalog
  raises \<open>TypeError\<close> from \<^verbatim>\<open>len(vlist)\<close> (line 301 without a top directory, line 310 with
  one) instead of declining. The calls that do not get that far are those where
  \<^verbatim>\<open>FORTRANFILESUFFIXES\<close> or \<^verbatim>\<open>F90FILESUFFIXES\<close> is set to a string, which has no
  \<^verbatim>\<open>append\<close>.
\<close>

theorem generate_other_platform:
  assumes "\<not> is_windows h" and "\<not> is_linux h"
  shows "get_all_compiler_versions h = None \<and>
         (\<forall>s'. generate h s version abi topdir verbose \<noteq> Inr s') \<and>
         (appendable s ''FORTRANFILESUFFIXES'' \<and> appendable s ''F90FILESUFFIXES'' \<longrightarrow>
            generate h s version abi topdir verbose = Inl TypeError)"
proof -
  have cat: "get_all_compiler_versions h = None"
    using assms by (simp add: get_all_compiler_versions_def)
  have after: "\<And>s1. register_suffixes h s = Inr s1 \<Longrightarrow>
                 generate h s version abi topdir verbose = Inl TypeError"
    by (simp add: generate_def cat configure_without_catalog)
  have never: "\<forall>s'. generate h s version abi topdir verbose \<noteq> Inr s'"
  proof (cases "register_suffixes h s")
    case (Inl e)
    then show ?thesis by (simp add: generate_def)
  next
    case (Inr s1)
    then show ?thesis by (simp add: after)
  qed
  have raises: "generate h s version abi topdir verbose = Inl TypeError"
    if a: "appendable s ''FORTRANFILESUFFIXES''" and b: "appendable s ''F90FILESUFFIXES''"
  proof -
    obtain s2 where s2: "append_suffix s ''FORTRANFILESUFFIXES'' ''.i'' = Inr s2"
      using append_suffix_appendable [OF a] by blast
    have "appendable s2 ''F90FILESUFFIXES''"
      using append_suffix_keeps_appendable [OF s2, of "''F90FILESUFFIXES''"] b by simp
    then obtain s3 where s3: "append_suffix s2 ''F90FILESUFFIXES'' ''.i90'' = Inr s3"
      using append_suffix_appendable by blast
    have "register_suffixes h s = Inr s3"
      using assms s2 s3 by (simp add: register_suffixes_def)
    then show ?thesis by (rule after)
  qed
  show ?thesis using cat never raises by blast
qed

lemma darwin_host_platform: "\<not> is_windows darwin_host" "\<not> is_linux darwin_host"
  by (simp_all add: darwin_host_def is_windows_def is_linux_def linux_host_def startswith_def)

theorem generate_other_platform_witness:
  "get_all_compiler_versions darwin_host = None \<and>
   generate darwin_host posix_env None None None False = Inl TypeError \<and>
   generate darwin_host posix_env (Some ''19.0'') (Some ''x86_64'') (Some ''/opt/intel'') True =
     Inl TypeError"
  using generate_other_platform [OF darwin_host_platform, of posix_env None None None False]
    generate_other_platform [OF darwin_host_platform, of posix_env "Some ''19.0''"
      "Some ''x86_64''" "Some ''/opt/intel''" True]
  by (simp add: appendable_def posix_env_def)

lemma float_three_components: "py_float ''2011.11.344'' = Inl ValueError"
  by code_simp

lemma float_2017: "py_float ''2017.4.196'' = Inl ValueError"
  by code_simp

lemma dir_version_2011:
  "dir_version ''/opt/intel/composer_xe_2011_sp1.11.344'' = Some ''2011.11.344''"
  by code_simp

lemma dir_version_2017:
  "dir_version ''/opt/intel/compilers_and_libraries_2017.4.196'' = Some ''2017.4.196''"
  by code_simp

lemma catalog_2011: "get_all_compiler_versions host_2011 = Some [''2011.11.344'']"
  by (simp add: get_all_compiler_versions_def host_2011_def linux_host_platform linux_host_simps
      sorted_reverse_def dir_version_2011)

lemma catalog_2017: "get_all_compiler_versions host_2017 = Some [''2017.4.196'']"
  by (simp add: get_all_compiler_versions_def host_2017_def linux_host_platform linux_host_simps
      sorted_reverse_def dir_version_2017)

text \<open>
  C10. On Linux, when \<^verbatim>\<open>float\<close> refuses the version and the search of the 2011-style
  directories finds nothing, \<^verbatim>\<open>get_intel_compiler_top\<close> raises the \<open>ValueError\<close> of
  \<^verbatim>\<open>str(int(float(version)))\<close> and not \<open>MissingDirError\<close>. The version \<open>2011.11.344\<close> is
  such a string, and the catalog produces it from the directory
  \<^verbatim>\<open>/opt/intel/composer_xe_2011_sp1.11.344\<close>.
\<close>

theorem compiler_top_value_error:
  "(is_linux h \<and> py_float v = Inl ValueError \<and> \<not> truthy (find_in_2011style_dir h (Some v)) \<longrightarrow>
      get_intel_compiler_top h (Some v) abi = Inl ValueError) \<and>
   py_float ''2011.11.344'' = Inl ValueError \<and>
   get_all_compiler_versions host_2011 = Some [''2011.11.344'']"
  by (auto simp: get_intel_compiler_top_def linux_not_windows find_in_2017style_dir_def
      str_int_float_def float_three_components catalog_2011)

lemma find_2011_host_2017: "find_in_2011style_dir host_2017 (Some ''2017.4.196'') = None"
  by (simp add: find_in_2011style_dir_def host_2017_def linux_host_simps truthy_def)

lemma host_2017_facts:
  "is_linux host_2017"
  "os_path_exists host_2017 ''/opt/intel/compilers_and_libraries_2017.4.196/linux/bin/intel64/icc''"
  by (simp_all add: host_2017_def linux_host_platform linux_host_simps)

text \<open>The same on a host where the installation of the version is in place: the version
  the catalog lists cannot be resolved.\<close>

theorem compiler_top_value_error_witness:
  "get_all_compiler_versions host_2017 = Some [''2017.4.196''] \<and>
   os_path_exists host_2017 ''/opt/intel/compilers_and_libraries_2017.4.196/linux/bin/intel64/icc'' \<and>
   get_intel_compiler_top host_2017 (Some ''2017.4.196'') ''x86_64'' = Inl ValueError"
  using compiler_top_value_error [of host_2017 "''2017.4.196''" "''x86_64''"]
  by (simp add: catalog_2017 float_2017 find_2011_host_2017 truthy_def host_2017_facts)

text \<open>
  C5. On a Linux host without any installation the request for version \<open>99.9\<close> ends in
  \<open>MissingDirError\<close>. Its message holds the version and the ABI; in the place of the
  directory it holds \<open>None\<close>, the value of \<^verbatim>\<open>top\<close> on this branch, and none of the three
  patterns that were searched.
\<close>

lemma float_99_9: "py_float ''99.9'' = Inr (Finite False 999 (- 1))"
  by code_simp

lemma ilog2_99: "ilog2 99 = 6"
  by (simp add: ilog2.simps)

lemma double_trunc_99_9: "double_trunc 999 10 = Some 99"
  by (simp add: double_trunc_def ilog2_99 round_half_even_def Let_def)

lemma str_int_float_99_9: "str_int_float (Some ''99.9'') = Inr ''99''"
  by (simp add: str_int_float_def float_99_9 int_of_float_def double_trunc_99_9 str_int_def)

theorem missing_dir_message:
  "get_intel_compiler_top (linux_host [] []) (Some ''99.9'') ''x86_64'' =
     Inl (MissingDirError (''Can'' @ squote @ ''t find version 99.9 Intel compiler in None (abi='' @
                           squote @ ''x86_64'' @ squote @ '')''))"
  by (simp add: get_intel_compiler_top_def linux_host_platform find_in_2011style_dir_def
      find_in_2017style_dir_def linux_host_simps truthy_def str_int_float_99_9 py_str_def)

section \<open>Declining without an installation\<close>

lemma append_suffix_frame:
  "append_suffix s key x = Inr s' \<Longrightarrow> ENV s' = ENV s \<and> stdout s' = stdout s"
  by (auto simp: append_suffix_def setitem_def split: option.splits cval.splits)

lemma append_suffix_changes:
  "append_suffix s key x = Inr s' \<Longrightarrow> vars s' key \<noteq> vars s key"
  by (auto simp: append_suffix_def setitem_def split: option.splits cval.splits)

text \<open>
  C2, as the code has it. When the catalog is empty and no top directory is given,
  whatever version is requested, \<^verbatim>\<open>generate\<close> returns after printing the diagnostic. The
  execution environment \<^verbatim>\<open>env['ENV']\<close> is the one it started with (on Windows, the one
  \<^verbatim>\<open>SCons.Tool.msvc.generate\<close> left), and so is every construction variable but two:
  \<^verbatim>\<open>FORTRANFILESUFFIXES\<close> and \<^verbatim>\<open>F90FILESUFFIXES\<close> have been changed by lines 290-298,
  which run before the catalog is read.
\<close>

theorem generate_declines_frame:
  assumes "get_all_compiler_versions h = Some []" and "\<not> truthy topdir"
    and "(if is_windows h then msvc_generate h s else Inr s) = Inr s0"
    and "appendable s0 ''FORTRANFILESUFFIXES''" and "appendable s0 ''F90FILESUFFIXES''"
  shows "\<exists>s'. generate h s version abi topdir verbose = Inr s' \<and>
           ENV s' = ENV s0 \<and>
           stdout s' = stdout s0 @
             [Print ''Intel Fortran compiler not configured. Could not find an installation.''] \<and>
           (\<forall>k. k \<noteq> ''FORTRANFILESUFFIXES'' \<and> k \<noteq> ''F90FILESUFFIXES'' \<longrightarrow> vars s' k = vars s0 k) \<and>
           vars s' ''FORTRANFILESUFFIXES'' \<noteq> vars s0 ''FORTRANFILESUFFIXES'' \<and>
           vars s' ''F90FILESUFFIXES'' \<noteq> vars s0 ''F90FILESUFFIXES''"
proof -
  obtain s2 where s2: "append_suffix s0 ''FORTRANFILESUFFIXES'' ''.i'' = Inr s2"
    using append_suffix_appendable assms(4) by blast
  have "appendable s2 ''F90FILESUFFIXES''"
    using append_suffix_keeps_appendable [OF s2, of "''F90FILESUFFIXES''"] assms(5) by simp
  then obtain s3 where s3: "append_suffix s2 ''F90FILESUFFIXES'' ''.i90'' = Inr s3"
    using append_suffix_appendable by blast
  have reg: "register_suffixes h s = Inr s3"
    using assms(3) s2 s3 by (simp add: register_suffixes_def)
  have gen: "generate h s version abi topdir verbose =
      Inr (emit s3 (Print ''Intel Fortran compiler not configured. Could not find an installation.''))"
    using assms(1,2) reg by (simp add: generate_def)
  have frame: "ENV s3 = ENV s0" "stdout s3 = stdout s0"
    using append_suffix_frame [OF s2] append_suffix_frame [OF s3] by simp_all
  have others: "vars s3 k = vars s0 k" if "k \<noteq> ''FORTRANFILESUFFIXES''" "k \<noteq> ''F90FILESUFFIXES''" for k
    using append_suffix_other [OF s2, of k] append_suffix_other [OF s3, of k] that by simp
  have f77: "vars s3 ''FORTRANFILESUFFIXES'' \<noteq> vars s0 ''FORTRANFILESUFFIXES''"
    using append_suffix_changes [OF s2] append_suffix_other [OF s3, of "''FORTRANFILESUFFIXES''"]
    by simp
  have f90: "vars s3 ''F90FILESUFFIXES'' \<noteq> vars s0 ''F90FILESUFFIXES''"
    using append_suffix_changes [OF s3] append_suffix_other [OF s2, of "''F90FILESUFFIXES''"]
    by simp
  show ?thesis
    using gen frame others f77 f90 by (simp add: emit_def)
qed

lemma generate_empty_linux:
  "generate (linux_host [] []) empty_env None None None False =
     Inr \<lparr> vars = [''FORTRANFILESUFFIXES'' \<mapsto> Lst [''.i''], ''F90FILESUFFIXES'' \<mapsto> Lst [''.i90'']],
           ENV = Map.empty,
           stdout = [Print ''Intel Fortran compiler not configured. Could not find an installation.''] \<rparr>"
  by (simp add: generate_def catalog_empty_linux register_suffixes_empty_env truthy_def emit_def)

lemma posix_env_appendable:
  "appendable posix_env ''FORTRANFILESUFFIXES''" "appendable posix_env ''F90FILESUFFIXES''"
  by (simp_all add: appendable_def posix_env_def)

theorem generate_declines_frame_witness:
  "get_all_compiler_versions (linux_host [] []) = Some [] \<and>
   result_path (generate (linux_host [] []) posix_env (Some ''19.0'') None None False) ''PATH'' =
     Some [''/usr/bin''] \<and>
   result_var (generate (linux_host [] []) posix_env (Some ''19.0'') None None False) ''PLATFORM'' =
     Some (Str ''posix'')"
proof -
  have a: "\<not> truthy None" by (simp add: truthy_def)
  have b: "(if is_windows (linux_host [] []) then msvc_generate (linux_host [] []) posix_env
            else Inr posix_env) = Inr posix_env"
    by (simp add: linux_host_platform)
  obtain s' where g: "generate (linux_host [] []) posix_env (Some ''19.0'') None None False = Inr s'"
    and e: "ENV s' = ENV posix_env"
    and v: "\<forall>k. k \<noteq> ''FORTRANFILESUFFIXES'' \<and> k \<noteq> ''F90FILESUFFIXES'' \<longrightarrow> vars s' k = vars posix_env k"
    using generate_declines_frame [OF catalog_empty_linux a b posix_env_appendable] by blast
  have "vars s' ''PLATFORM'' = vars posix_env ''PLATFORM''"
    using v by simp
  then show ?thesis
    using g e by (simp add: catalog_empty_linux result_path_def result_var_def posix_env_def)
qed

text \<open>
  C2 as stated fails: on a Linux host without installations, a call with neither a
  version nor a top directory sets two construction variables of an Environment that had
  none.
\<close>

theorem generate_declines_counterexample:
  "get_all_compiler_versions (linux_host [] []) = Some [] \<and>
   vars empty_env ''FORTRANFILESUFFIXES'' = None \<and>
   vars empty_env ''F90FILESUFFIXES'' = None \<and>
   result_var (generate (linux_host [] []) empty_env None None None False) ''FORTRANFILESUFFIXES'' =
     Some (Lst [''.i'']) \<and>
   result_var (generate (linux_host [] []) empty_env None None None False) ''F90FILESUFFIXES'' =
     Some (Lst [''.i90''])"
  by (simp add: generate_empty_linux catalog_empty_linux result_var_def)
     (simp add: empty_env_def)

section \<open>The layout and the search paths\<close>

lemma ENV_setitem [simp]: "ENV (setitem s k v) = ENV s"
  by (simp add: setitem_def)

lemma ENV_emit [simp]: "ENV (emit s x) = ENV s"
  by (simp add: emit_def)

lemma ENV_report_compiler [simp]: "ENV (report_compiler h s version abi L) = ENV s"
  by (simp add: report_compiler_def Let_def)

lemma ENV_AppendENVPath:
  "ENV (AppendENVPath s n p) name =
     (if n = name then Some (env_paths s name @ [p]) else ENV s name)"
  by (simp add: AppendENVPath_def env_paths_def)

lemma ENV_apply_calls:
  "ENV (apply_calls s calls) name =
     (if name \<in> fst ` set calls \<or> ENV s name \<noteq> None
      then Some (env_paths s name @ map snd (filter (\<lambda>c. fst c = name) calls))
      else None)"
proof (induction calls arbitrary: s)
  case Nil
  then show ?case by (auto simp: apply_calls_def env_paths_def)
next
  case (Cons c calls)
  obtain n p where c: "c = (n, p)" by (cases c)
  have step: "apply_calls s (c # calls) = apply_calls (AppendENVPath s n p) calls"
    by (simp add: apply_calls_def c)
  show ?case
    unfolding step Cons.IH
    by (auto simp: c ENV_AppendENVPath env_paths_def)
qed

lemma mkl_calls_resolve:
  "mkl_calls h (resolve_layout h topdir archdir) =
     (if os_path_exists h (os_path_join h [topdir, ''mkl'', ''bin'', archdir]) \<and>
         os_path_join h [''mkl'', ''bin'', archdir] \<noteq> []
      then Inr [(''PATH'', os_path_join h [topdir, os_path_join h [''mkl'', ''bin'', archdir]]),
                (''INCLUDE'', os_path_join h [topdir, os_path_join h [''mkl'', ''include'']]),
                (''LIB'', os_path_join h [topdir, os_path_join h [''mkl'', ''lib'', archdir]])]
      else Inr [])"
  by (simp add: mkl_calls_def resolve_layout_def Let_def truthy_def join_top_def)

lemma platform_calls_resolve:
  "\<exists>p. platform_calls h (resolve_layout h topdir archdir) = Inr p \<and>
       (\<forall>c \<in> set p. fst c = ''PATH'' \<or> fst c = ''LD_LIBRARY_PATH'')"
  by (simp add: platform_calls_def resolve_layout_def Let_def truthy_def join_top_def)

lemma path_calls_resolve:
  "\<exists>rest. path_calls h (resolve_layout h topdir archdir) =
            Inr (base_calls h (resolve_layout h topdir archdir) @ rest)"
  using platform_calls_resolve [of h topdir archdir]
  by (auto simp: path_calls_def mkl_calls_resolve)

lemma ENV_apply_calls_cong:
  "ENV t = ENV s \<Longrightarrow> ENV (apply_calls t calls) = ENV (apply_calls s calls)"
  by (intro ext) (simp add: ENV_apply_calls env_paths_def)

lemma configure_paths_ENV:
  assumes "map_of archdir_table abi = Some archdir"
    and "path_calls h (resolve_layout h topdir archdir) = Inr calls"
  shows "\<exists>s'. configure_paths h s version abi topdir verbose = Inr s' \<and>
              ENV s' = ENV (apply_calls s calls)"
proof -
  define s3 where "s3 =
    setitem
      (if verbose
       then report_compiler h (setitem s ''INTEL_FORTRAN_REDIST_DIR'' (Str (redist_path h topdir)))
              version abi (resolve_layout h topdir archdir)
       else setitem s ''INTEL_FORTRAN_REDIST_DIR'' (Str (redist_path h topdir)))
      ''INTEL_FORTRAN_COMPILER_TOP'' (Str topdir)"
  have run: "configure_paths h s version abi topdir verbose = Inr (apply_calls s3 calls)"
    using assms by (simp add: configure_paths_def Let_def s3_def)
  have "ENV s3 = ENV s"
    by (simp add: s3_def)
  then have "ENV (apply_calls s3 calls) = ENV (apply_calls s calls)"
    by (rule ENV_apply_calls_cong)
  with run show ?thesis by simp
qed

text \<open>
  C4, as the code has it. For every layout that \<^verbatim>\<open>generate\<close> resolves, the three base
  directories, joined to the top directory, are appended: after lines 336-402 the search
  paths \<^verbatim>\<open>INCLUDE\<close>, \<^verbatim>\<open>LIB\<close> and \<^verbatim>\<open>PATH\<close> hold what they held before, then
  \<open>includeDir\<close>, \<open>libDir\<close> and \<open>binDir\<close> of the layout, then whatever the later calls add.
\<close>

theorem base_paths_appended:
  assumes "map_of archdir_table abi = Some archdir" and "L = resolve_layout h topdir archdir"
  shows "\<exists>s' r1 r2 r3. configure_paths h s version abi topdir verbose = Inr s' \<and>
     ENV s' ''INCLUDE'' = Some (env_paths s ''INCLUDE'' @ os_path_join h [topdir, includeDir L] # r1) \<and>
     ENV s' ''LIB'' = Some (env_paths s ''LIB'' @ os_path_join h [topdir, libDir L] # r2) \<and>
     ENV s' ''PATH'' = Some (env_paths s ''PATH'' @ os_path_join h [topdir, binDir L] # r3)"
proof -
  obtain rest where calls: "path_calls h L = Inr (base_calls h L @ rest)"
    using path_calls_resolve assms(2) by blast
  obtain s' where s': "configure_paths h s version abi topdir verbose = Inr s'"
    and env: "ENV s' = ENV (apply_calls s (base_calls h L @ rest))"
    using configure_paths_ENV [OF assms(1)] calls assms(2) by blast
  have top: "topDir L = topdir"
    by (simp add: assms(2) resolve_layout_def Let_def)
  have "ENV s' ''INCLUDE'' = Some (env_paths s ''INCLUDE'' @ os_path_join h [topdir, includeDir L] #
          map snd (filter (\<lambda>c. fst c = ''INCLUDE'') rest))"
    by (simp add: env ENV_apply_calls base_calls_def top)
  moreover have "ENV s' ''LIB'' = Some (env_paths s ''LIB'' @ os_path_join h [topdir, libDir L] #
          map snd (filter (\<lambda>c. fst c = ''LIB'') rest))"
    by (simp add: env ENV_apply_calls base_calls_def top)
  moreover have "ENV s' ''PATH'' = Some (env_paths s ''PATH'' @ os_path_join h [topdir, binDir L] #
          map snd (filter (\<lambda>c. fst c = ''PATH'') rest))"
    by (simp add: env ENV_apply_calls base_calls_def top)
  ultimately show ?thesis using s' by blast
qed


lemma posix_join_simps:
  "posix_join [a, b] = posix_join2 a b"
  "posix_join [a, b, c] = posix_join2 (posix_join2 a b) c"
  "posix_join [a, b, c, d] = posix_join2 (posix_join2 (posix_join2 a b) c) d"
  by (simp_all add: posix_join_def)

lemma layout_modern:
  "resolve_layout host_modern ''/opt/intel'' ''intel64'' =
     \<lparr> topDir = ''/opt/intel'', archDir = ''intel64'', binDir = ''bin/intel64'',
       libDir = ''compiler/lib/intel64'', includeDir = ''compiler/include'',
       mklBinDir = None, mklLibDir = None, mklIncludeDir = None \<rparr>"
  by (simp add: resolve_layout_def host_modern_def linux_host_simps posix_join_simps
      posix_join2_def startswith_def)

lemma path_calls_modern:
  "path_calls host_modern (resolve_layout host_modern ''/opt/intel'' ''intel64'') =
     Inr [(''INCLUDE'', ''/opt/intel/compiler/include''),
          (''LIB'', ''/opt/intel/compiler/lib/intel64''),
          (''PATH'', ''/opt/intel/bin/intel64''),
          (''LD_LIBRARY_PATH'', ''/opt/intel/compiler/lib/intel64'')]"
  unfolding layout_modern
  by (simp add: path_calls_def mkl_calls_def platform_calls_def base_calls_def truthy_def
      host_modern_def linux_host_platform linux_host_simps posix_join_simps posix_join2_def
      startswith_def)

lemma configure_paths_modern:
  "result_path (configure_paths host_modern posix_env (Some ''2021.3'') ''x86_64'' ''/opt/intel'' False)
     ''PATH'' = Some [''/usr/bin'', ''/opt/intel/bin/intel64'']"
proof -
  have a: "map_of archdir_table ''x86_64'' = Some ''intel64''"
    by (simp add: archdir_table_def)
  obtain s' where "configure_paths host_modern posix_env (Some ''2021.3'') ''x86_64'' ''/opt/intel'' False = Inr s'"
    and "ENV s' = ENV (apply_calls posix_env
       [(''INCLUDE'', ''/opt/intel/compiler/include''),
          (''LIB'', ''/opt/intel/compiler/lib/intel64''),
          (''PATH'', ''/opt/intel/bin/intel64''),
          (''LD_LIBRARY_PATH'', ''/opt/intel/compiler/lib/intel64'')])"
    using configure_paths_ENV [OF a path_calls_modern] by blast
  then show ?thesis
    by (simp add: result_path_def ENV_apply_calls env_paths_def posix_env_def)
qed

lemma host_modern_facts:
  "is_linux host_modern" "\<not> is_windows host_modern"
  "get_all_compiler_versions host_modern = Some []"
  "os_path_exists host_modern ''/opt/intel''"
  "add_all_to_env host_modern = Inr"
  by (simp_all add: host_modern_def linux_host_platform catalog_empty_linux linux_host_simps)

lemma register_suffixes_posix_env:
  "register_suffixes host_modern posix_env =
     Inr (setitem (setitem posix_env ''FORTRANFILESUFFIXES'' (Lst [''.i'']))
            ''F90FILESUFFIXES'' (Lst [''.i90'']))"
  by (simp add: register_suffixes_def host_modern_facts append_suffix_def posix_env_def setitem_def)

lemma getitem_setitem:
  "getitem (setitem s k v) k' = (if k' = k then Inr v else getitem s k')"
  by (simp add: getitem_def setitem_def)

lemma dialect_loop_ENV:
  "dialect_loop s ds = Inr s' \<Longrightarrow> ENV s' = ENV s"
proof (induction ds arbitrary: s)
  case Nil
  then show ?case by simp
next
  case (Cons d ds)
  then show ?case
    by (auto simp: Let_def bindE_eq_Inr split: if_splits)
qed

lemma dialect_loop_posix:
  "vars s ''PLATFORM'' = Some (Str ''posix'') \<Longrightarrow> set ds \<subseteq> set dialects \<Longrightarrow>
   \<exists>s'. dialect_loop s ds = Inr s' \<and> vars s' ''PLATFORM'' = Some (Str ''posix'')"
proof (induction ds arbitrary: s)
  case Nil
  then show ?case by simp
next
  case (Cons d ds)
  have d: "d \<in> {''F77'', ''F90'', ''FORTRAN'', ''F95''}"
    using Cons.prems(2) by (simp add: dialects_def)
  define s2 where "s2 = setitem (setitem (setitem (setitem s d (Str ''ifort'')) (''SH'' @ d) (Str (''$'' @ d)))
      (''SH'' @ d @ ''FLAGS'') (CLVar [''$'' @ d @ ''FLAGS'', ''-fPIC'']))"
  have p: "vars (setitem (setitem s d (Str ''ifort'')) (''SH'' @ d) (Str (''$'' @ d))) ''PLATFORM'' = Some (Str ''posix'')"
    using d Cons.prems(1) by (auto simp: setitem_def)
  have p2: "vars (setitem (setitem (setitem s d (Str ''ifort'')) (''SH'' @ d) (Str (''$'' @ d)))
      (''SH'' @ d @ ''FLAGS'') (CLVar [''$'' @ d @ ''FLAGS'', ''-fPIC''])) ''PLATFORM'' = Some (Str ''posix'')"
    using d Cons.prems(1) by (auto simp: setitem_def)
  have step: "dialect_loop s (d # ds) = dialect_loop (setitem (setitem (setitem s d (Str ''ifort'')) (''SH'' @ d) (Str (''$'' @ d)))
      (''SH'' @ d @ ''FLAGS'') (CLVar [''$'' @ d @ ''FLAGS'', ''-fPIC''])) ds"
    using p by (simp add: Let_def getitem_def)
  show ?case
    unfolding step using Cons.IH [OF p2] Cons.prems(2) by simp
qed

lemma configure_dialects_posix:
  assumes "add_all_to_env h = Inr" and "vars s ''PLATFORM'' = Some (Str ''posix'')"
  shows "\<exists>s'. configure_dialects h s = Inr s' \<and> ENV s' = ENV s"
proof -
  obtain s2 where s2: "dialect_loop s dialects = Inr s2" and p: "vars s2 ''PLATFORM'' = Some (Str ''posix'')"
    using dialect_loop_posix [OF assms(2), of dialects] by auto
  have "ENV s2 = ENV s" using dialect_loop_ENV [OF s2] .
  then show ?thesis
    using assms(1) s2 p by (simp add: configure_dialects_def getitem_def)
qed

lemma vars_apply_calls [simp]: "vars (apply_calls s calls) = vars s"
  unfolding apply_calls_def
  by (induction calls arbitrary: s) (auto simp: AppendENVPath_def)

lemma vars_report_compiler [simp]: "vars (report_compiler h s version abi L) = vars s"
  by (simp add: report_compiler_def Let_def emit_def)

lemma configure_paths_vars:
  assumes "configure_paths h s version abi topdir verbose = Inr s'"
    and "k \<noteq> ''INTEL_FORTRAN_REDIST_DIR''" and "k \<noteq> ''INTEL_FORTRAN_COMPILER_TOP''"
  shows "vars s' k = vars s k"
  using assms
  by (auto simp: configure_paths_def Let_def bindE_eq_Inr setitem_def split: option.splits)

lemma generate_explicit_topdir:
  assumes "register_suffixes h s = Inr s1"
    and "get_all_compiler_versions h = Some []"
    and "t \<noteq> []" and "os_path_exists h t"
    and "configure_paths h s1 None (default_abi h abi) t False = Inr s4"
    and "configure_dialects h s4 = Inr s5"
  shows "generate h s None abi (Some t) False = Inr s5"
  using assms
  by (simp add: generate_def truthy_def configure_def select_version_def resolve_topdir_def)

lemma generate_modern:
  "result_path (generate host_modern posix_env None None (Some ''/opt/intel'') False) ''PATH'' =
     Some [''/usr/bin'', ''/opt/intel/bin/intel64'']"
proof -
  define s1 where "s1 = setitem (setitem posix_env ''FORTRANFILESUFFIXES'' (Lst [''.i'']))
            ''F90FILESUFFIXES'' (Lst [''.i90''])"
  have abi: "default_abi host_modern None = ''x86_64''"
    by (simp add: default_abi_def host_modern_facts)
  have a: "map_of archdir_table ''x86_64'' = Some ''intel64''"
    by (simp add: archdir_table_def)
  obtain s4 where s4: "configure_paths host_modern s1 None ''x86_64'' ''/opt/intel'' False = Inr s4"
    and env4: "ENV s4 = ENV (apply_calls s1
       [(''INCLUDE'', ''/opt/intel/compiler/include''),
          (''LIB'', ''/opt/intel/compiler/lib/intel64''),
          (''PATH'', ''/opt/intel/bin/intel64''),
          (''LD_LIBRARY_PATH'', ''/opt/intel/compiler/lib/intel64'')])"
    using configure_paths_ENV [OF a path_calls_modern] by blast
  have "vars s4 ''PLATFORM'' = vars s1 ''PLATFORM''"
    using configure_paths_vars [OF s4] by simp
  then have "vars s4 ''PLATFORM'' = Some (Str ''posix'')"
    by (simp add: s1_def setitem_def posix_env_def)
  then obtain s5 where s5: "configure_dialects host_modern s4 = Inr s5" and env5: "ENV s5 = ENV s4"
    using configure_dialects_posix [OF host_modern_facts(5)] by blast
  have reg: "register_suffixes host_modern posix_env = Inr s1"
    by (simp add: register_suffixes_posix_env s1_def)
  have "generate host_modern posix_env None None (Some ''/opt/intel'') False = Inr s5"
    using reg host_modern_facts(3) _ host_modern_facts(4) _ s5
    by (rule generate_explicit_topdir) (simp_all add: abi s4)
  then show ?thesis
    by (simp add: result_path_def env5 env4 ENV_apply_calls env_paths_def s1_def posix_env_def)
qed

theorem base_paths_appended_witness:
  "map_of archdir_table ''x86_64'' = Some ''intel64'' \<and>
   (\<exists>r. result_path (configure_paths host_modern posix_env (Some ''2021.3'') ''x86_64''
                        ''/opt/intel'' False) ''PATH'' =
          Some ([''/usr/bin''] @ ''/opt/intel/bin/intel64'' # r)) \<and>
   (\<exists>r. result_path (configure_paths host_modern posix_env (Some ''2021.3'') ''x86_64''
                        ''/opt/intel'' False) ''INCLUDE'' =
          Some ([] @ ''/opt/intel/compiler/include'' # r))"
proof -
  have a: "map_of archdir_table ''x86_64'' = Some ''intel64''"
    by (simp add: archdir_table_def)
  have j: "os_path_join host_modern [''/opt/intel'', ''bin/intel64''] = ''/opt/intel/bin/intel64''"
    "os_path_join host_modern [''/opt/intel'', ''compiler/include''] = ''/opt/intel/compiler/include''"
    by (simp_all add: host_modern_def linux_host_simps posix_join_simps posix_join2_def
        startswith_def)
  have e: "env_paths posix_env ''PATH'' = [''/usr/bin'']" "env_paths posix_env ''INCLUDE'' = []"
    by (simp_all add: env_paths_def posix_env_def)
  show ?thesis
    using base_paths_appended [OF a layout_modern [symmetric], of posix_env "Some ''2021.3''" False]
    by (auto simp: a j e result_path_def)
qed

text \<open>
  C4 as stated fails: with \<^verbatim>\<open>/usr/bin\<close> on \<^verbatim>\<open>PATH\<close>, the binary directory of the
  installation comes after it, not before.
\<close>

theorem base_paths_prepended_counterexample:
  "env_paths posix_env ''PATH'' = [''/usr/bin''] \<and>
   result_path (generate host_modern posix_env None None (Some ''/opt/intel'') False) ''PATH'' =
     Some [''/usr/bin'', ''/opt/intel/bin/intel64''] \<and>
   result_path (generate host_modern posix_env None None (Some ''/opt/intel'') False) ''PATH'' \<noteq>
     Some (''/opt/intel/bin/intel64'' # env_paths posix_env ''PATH'')"
  by (simp add: generate_modern) (simp add: env_paths_def posix_env_def)

text \<open>
  C8. The three math-library directories of the layout are set when
  \<^verbatim>\<open>mkl/bin/<archdir>\<close> exists under the top directory, and only then. When it does not
  exist all three are \<open>None\<close>, and the \<^verbatim>\<open>AppendENVPath\<close> calls of lines 387-402 are the
  three base calls and the call of the platform: none for the math library.
\<close>

theorem mkl_layout:
  assumes "L = resolve_layout h topdir archdir"
  shows "if os_path_exists h (os_path_join h [topdir, ''mkl'', ''bin'', archdir])
         then mklBinDir L = Some (os_path_join h [''mkl'', ''bin'', archdir]) \<and>
              mklLibDir L = Some (os_path_join h [''mkl'', ''lib'', archdir]) \<and>
              mklIncludeDir L = Some (os_path_join h [''mkl'', ''include''])
         else mklBinDir L = None \<and> mklLibDir L = None \<and> mklIncludeDir L = None \<and>
              mkl_calls h L = Inr [] \<and>
              path_calls h L =
                Inr (base_calls h L @
                     (if is_windows h
                      then [(''PATH'', os_path_join h [topdir, ''redist'', archdir, ''compiler''])]
                      else if is_linux h
                      then [(''LD_LIBRARY_PATH'', os_path_join h [topdir, libDir L])]
                      else []))"
  by (simp add: assms resolve_layout_def Let_def path_calls_def mkl_calls_def platform_calls_def
      truthy_def)

lemma layout_mkl:
  "resolve_layout host_mkl ''/opt/intel'' ''intel64'' =
     \<lparr> topDir = ''/opt/intel'', archDir = ''intel64'', binDir = ''bin/intel64'',
       libDir = ''compiler/lib/intel64'', includeDir = ''compiler/include'',
       mklBinDir = Some ''mkl/bin/intel64'', mklLibDir = Some ''mkl/lib/intel64'',
       mklIncludeDir = Some ''mkl/include'' \<rparr>"
  by (simp add: resolve_layout_def host_mkl_def linux_host_simps posix_join_simps
      posix_join2_def startswith_def)

theorem mkl_layout_witness:
  "\<not> os_path_exists host_modern ''/opt/intel/mkl/bin/intel64'' \<and>
   mklBinDir (resolve_layout host_modern ''/opt/intel'' ''intel64'') = None \<and>
   path_calls host_modern (resolve_layout host_modern ''/opt/intel'' ''intel64'') =
     Inr [(''INCLUDE'', ''/opt/intel/compiler/include''),
          (''LIB'', ''/opt/intel/compiler/lib/intel64''),
          (''PATH'', ''/opt/intel/bin/intel64''),
          (''LD_LIBRARY_PATH'', ''/opt/intel/compiler/lib/intel64'')] \<and>
   os_path_exists host_mkl ''/opt/intel/mkl/bin/intel64'' \<and>
   mklBinDir (resolve_layout host_mkl ''/opt/intel'' ''intel64'') = Some ''mkl/bin/intel64''"
proof -
  have j: "os_path_join host_modern [''/opt/intel'', ''mkl'', ''bin'', ''intel64''] =
             ''/opt/intel/mkl/bin/intel64''"
    "os_path_join host_mkl [''/opt/intel'', ''mkl'', ''bin'', ''intel64''] =
             ''/opt/intel/mkl/bin/intel64''"
    "os_path_join host_mkl [''mkl'', ''bin'', ''intel64''] = ''mkl/bin/intel64''"
    by (simp_all add: host_modern_def host_mkl_def linux_host_simps posix_join_simps
        posix_join2_def startswith_def)
  have x: "\<not> os_path_exists host_modern ''/opt/intel/mkl/bin/intel64''"
    "os_path_exists host_mkl ''/opt/intel/mkl/bin/intel64''"
    by (simp_all add: host_modern_def host_mkl_def linux_host_simps)
  show ?thesis
    using mkl_layout [OF refl, of host_modern "''/opt/intel''" "''intel64''"]
      mkl_layout [OF refl, of host_mkl "''/opt/intel''" "''intel64''"]
    by (simp add: j x path_calls_modern)
qed

end
